theory Spec2Isabelle
  imports Main
begin

section \<open>JavaScript values used by the client\<close>

text \<open>
  A value of type \<open>string | null\<close> (or \<open>string | undefined\<close>) is a \<open>string option\<close>.
  JavaScript's truthiness test on such a value (\<open>if (x)\<close>, \<open>x && y\<close>, \<open>x || y\<close>)
  succeeds exactly for a present, non-empty string.
\<close>

fun truthy :: "string option \<Rightarrow> bool" where
  "truthy None = False"
| "truthy (Some s) = (s \<noteq> [])"

text \<open>\<open>a || b\<close> on optional strings: the left operand when it is truthy, else the right.\<close>

definition or_else :: "string option \<Rightarrow> string option \<Rightarrow> string option" where
  "or_else a b = (if truthy a then a else b)"

text \<open>\<open>s.startsWith(p)\<close>.\<close>

definition startsWith :: "string \<Rightarrow> string \<Rightarrow> bool" where
  "startsWith s p = (take (length p) s = p)"

section \<open>Credential store (stores/authStore.ts)\<close>

text \<open>
  The fields of \<open>User\<close> (types/index.ts) that the store and the access gate read or
  write. \<open>permissions\<close> is read with \<open>?.\<close> in the store, so it may be absent.
\<close>

record User =
  user_id :: nat
  role_type :: string
  permissions :: "string list option"
  tenant_name :: "string option"
  payment_required :: "bool option"
  payment_message :: "string option"

record SuperAdmin =
  admin_id :: nat
  admin_username :: string

record AuthState =
  user :: "User option"
  token :: "string option"
  refreshToken :: "string option"
  tenantSlug :: "string option"
  isAuthenticated :: bool
  superAdmin :: "SuperAdmin option"
  superToken :: "string option"
  superRefreshToken :: "string option"
  isSuperAdmin :: bool
  hasHydrated :: bool

definition initial_state :: AuthState where
  "initial_state =
     \<lparr> user = None, token = None, refreshToken = None, tenantSlug = None,
       isAuthenticated = False,
       superAdmin = None, superToken = None, superRefreshToken = None,
       isSuperAdmin = False,
       hasHydrated = False \<rparr>"

definition setAuth :: "User \<Rightarrow> string \<Rightarrow> string \<Rightarrow> string \<Rightarrow> AuthState \<Rightarrow> AuthState" where
  "setAuth u t r sl s =
     s\<lparr> user := Some u, token := Some t, refreshToken := Some r, tenantSlug := Some sl,
        isAuthenticated := True,
        superAdmin := None, superToken := None, superRefreshToken := None,
        isSuperAdmin := False \<rparr>"

definition setToken :: "string \<Rightarrow> AuthState \<Rightarrow> AuthState" where
  "setToken t s = s\<lparr> token := Some t \<rparr>"

definition setUser :: "User \<Rightarrow> AuthState \<Rightarrow> AuthState" where
  "setUser u s = s\<lparr> user := Some u \<rparr>"

definition logout :: "AuthState \<Rightarrow> AuthState" where
  "logout s =
     s\<lparr> user := None, token := None, refreshToken := None, tenantSlug := None,
        isAuthenticated := False \<rparr>"

definition hasPermission :: "AuthState \<Rightarrow> string \<Rightarrow> bool" where
  "hasPermission s permission =
     (case user s of
        None \<Rightarrow> False
      | Some u \<Rightarrow>
          if role_type u = ''director'' then True
          else (case permissions u of
                  None \<Rightarrow> False
                | Some ps \<Rightarrow> permission \<in> set ps))"

definition setSuperAuth :: "SuperAdmin \<Rightarrow> string \<Rightarrow> string \<Rightarrow> AuthState \<Rightarrow> AuthState" where
  "setSuperAuth a t r s =
     s\<lparr> superAdmin := Some a, superToken := Some t, superRefreshToken := Some r,
        isSuperAdmin := True,
        user := None, token := None, refreshToken := None, tenantSlug := None,
        isAuthenticated := False \<rparr>"

definition superLogout :: "AuthState \<Rightarrow> AuthState" where
  "superLogout s =
     s\<lparr> superAdmin := None, superToken := None, superRefreshToken := None,
        isSuperAdmin := False \<rparr>"

definition setHasHydrated :: "bool \<Rightarrow> AuthState \<Rightarrow> AuthState" where
  "setHasHydrated b s = s\<lparr> hasHydrated := b \<rparr>"

subsection \<open>Sequences of session-establishing calls\<close>

datatype establish_call =
    EstablishTenant User string string string
  | EstablishOperator SuperAdmin string string

fun establish :: "establish_call \<Rightarrow> AuthState \<Rightarrow> AuthState" where
  "establish (EstablishTenant u t r sl) s = setAuth u t r sl s"
| "establish (EstablishOperator a t r) s = setSuperAuth a t r s"

fun run_calls :: "AuthState \<Rightarrow> establish_call list \<Rightarrow> AuthState" where
  "run_calls s [] = s"
| "run_calls s (c # cs) = run_calls (establish c s) cs"

text \<open>A domain has non-null tokens when its access or its refresh token is set.\<close>

definition tenant_has_tokens :: "AuthState \<Rightarrow> bool" where
  "tenant_has_tokens s = (token s \<noteq> None \<or> refreshToken s \<noteq> None)"

definition operator_has_tokens :: "AuthState \<Rightarrow> bool" where
  "operator_has_tokens s = (superToken s \<noteq> None \<or> superRefreshToken s \<noteq> None)"

definition domain_exclusive :: "AuthState \<Rightarrow> bool" where
  "domain_exclusive s = (\<not> (tenant_has_tokens s \<and> operator_has_tokens s))"

definition tenant_cleared :: "AuthState \<Rightarrow> bool" where
  "tenant_cleared s =
     (user s = None \<and> token s = None \<and> refreshToken s = None \<and> tenantSlug s = None
      \<and> \<not> isAuthenticated s)"

definition operator_cleared :: "AuthState \<Rightarrow> bool" where
  "operator_cleared s =
     (superAdmin s = None \<and> superToken s = None \<and> superRefreshToken s = None
      \<and> \<not> isSuperAdmin s)"

section \<open>Request gateway and tenant resolver (services/api.ts)\<close>

text \<open>
  The part of an axios request configuration the interceptors read or write:
  the path, the base URL and the \<open>Authorization\<close> header.
\<close>

record RequestConfig =
  url :: "string option"
  baseURL :: "string option"
  authorization :: "string option"

text \<open>\<open>x || ''\<close>, and the interpolation of a truthy string into a template.\<close>

fun or_empty :: "string option \<Rightarrow> string" where
  "or_empty None = []"
| "or_empty (Some s) = s"

text \<open>The helper of api.ts; no instance and no interceptor of the file calls it.\<close>

definition getTenantBaseURL :: "AuthState \<Rightarrow> string" where
  "getTenantBaseURL s =
     (if truthy (tenantSlug s) then ''/api/v1/'' @ or_empty (tenantSlug s) else ''/api/v1'')"

text \<open>
  \<open>api = axios.create({headers})\<close>: the tenant instance is created without a base URL.
  \<open>superApi = axios.create({baseURL: '/api/v1/super', headers})\<close>.
\<close>

definition api_defaults :: RequestConfig where
  "api_defaults = \<lparr> url = None, baseURL = None, authorization = None \<rparr>"

definition superApi_defaults :: RequestConfig where
  "superApi_defaults = \<lparr> url = None, baseURL = Some ''/api/v1/super'', authorization = None \<rparr>"

text \<open>The request interceptor of \<open>api\<close>.\<close>

definition api_request :: "AuthState \<Rightarrow> RequestConfig \<Rightarrow> RequestConfig" where
  "api_request s cfg =
     (let cfg1 =
            (if truthy (tenantSlug s) \<and> truthy (url cfg)
                \<and> \<not> startsWith (or_empty (url cfg)) ''/api/v1/super''
             then cfg\<lparr> baseURL := Some (''/api/v1/'' @ or_empty (tenantSlug s)) \<rparr>
             else cfg)
      in if truthy (token s)
         then cfg1\<lparr> authorization := Some (''Bearer '' @ or_empty (token s)) \<rparr>
         else cfg1)"

text \<open>The request interceptor of \<open>superApi\<close>.\<close>

definition superApi_request :: "AuthState \<Rightarrow> RequestConfig \<Rightarrow> RequestConfig" where
  "superApi_request s cfg =
     (if truthy (superToken s)
      then cfg\<lparr> authorization := Some (''Bearer '' @ or_empty (superToken s)) \<rparr>
      else cfg)"

text \<open>
  A call \<open>api.get(path)\<close> / \<open>superApi.post(path, ...)\<close> with no per-call base URL:
  axios merges the instance defaults with the path and runs the request interceptor.
\<close>

definition api_call :: "AuthState \<Rightarrow> string \<Rightarrow> RequestConfig" where
  "api_call s path = api_request s (api_defaults\<lparr> url := Some path \<rparr>)"

definition superApi_call :: "AuthState \<Rightarrow> string \<Rightarrow> RequestConfig" where
  "superApi_call s path = superApi_request s (superApi_defaults\<lparr> url := Some path \<rparr>)"

subsection \<open>Response interceptors\<close>

text \<open>
  An \<open>AxiosError\<close>: \<open>error.response?.status\<close> and \<open>error.config\<close>.
\<close>

record AxiosError =
  status :: "nat option"
  config :: "RequestConfig option"

text \<open>
  What the refresh call can give back: the \<open>axios.post\<close> rejects, or it resolves with a
  body. \<open>response.data.tokens?.access_token || response.data.access_token\<close> throws inside
  the \<open>try\<close> when the body is null, and reads two optional strings otherwise.
\<close>

datatype RefreshBody =
    NullBody
  | Body (tokens_access_token: "string option") (access_token: "string option")

datatype RefreshResult = RefreshRejects | RefreshResponse RefreshBody

text \<open>The network calls the handlers issue, in order.\<close>

datatype NetCall =
    RefreshPost string string
  | AxiosRequest RequestConfig

text \<open>The store, \<open>window.location.href\<close> as last assigned, and the calls issued.\<close>

record World =
  store :: AuthState
  href :: "string option"
  net_log :: "NetCall list"

text \<open>
  What the rejection handler gives its caller: \<open>Promise.reject(error)\<close>, or the promise
  of \<open>axios(error.config)\<close>, whose result becomes the caller's result.
\<close>

datatype Outcome = Reject AxiosError | ReturnAxios RequestConfig

definition caller_result :: "(RequestConfig \<Rightarrow> AxiosError + 'r) \<Rightarrow> Outcome \<Rightarrow> AxiosError + 'r" where
  "caller_result net out = (case out of Reject e \<Rightarrow> Inl e | ReturnAxios cfg \<Rightarrow> net cfg)"

text \<open>
  The handler suspends at \<open>await axios.post(...)\<close>. Across the suspension it holds the
  error and the tenant slug it read before; the store is read again through its actions.
\<close>

record Pending =
  p_error :: AxiosError
  p_tenantSlug :: string

datatype Phase = Settled Outcome | Awaiting Pending

text \<open>The handler up to the \<open>await\<close> (or to its end when it does not refresh).\<close>

definition on_rejected :: "AxiosError \<Rightarrow> World \<Rightarrow> Phase \<times> World" where
  "on_rejected err w =
     (if status err = Some 401 then
        (let rt = refreshToken (store w); slug = tenantSlug (store w) in
         if truthy rt \<and> truthy slug then
           (Awaiting \<lparr> p_error = err, p_tenantSlug = or_empty slug \<rparr>,
            w\<lparr> net_log := net_log w @
                  [RefreshPost (''/api/v1/'' @ or_empty slug @ ''/auth/refresh'') (or_empty rt)] \<rparr>)
         else
           (Settled (Reject err),
            w\<lparr> store := logout (store w),
               href := Some (if or_empty slug \<noteq> [] then ''/'' @ or_empty slug @ ''/login''
                             else ''/s-panel/access'') \<rparr>))
      else (Settled (Reject err), w))"

text \<open>The \<open>catch\<close> block, followed by the final \<open>Promise.reject(error)\<close>.\<close>

definition refresh_failed :: "Pending \<Rightarrow> World \<Rightarrow> Outcome \<times> World" where
  "refresh_failed p w =
     (Reject (p_error p),
      w\<lparr> store := logout (store w), href := Some (''/'' @ p_tenantSlug p @ ''/login'') \<rparr>)"

text \<open>The handler from the \<open>await\<close> on, given what the refresh call gave back.\<close>

fun on_refresh_settled :: "Pending \<Rightarrow> RefreshResult \<Rightarrow> World \<Rightarrow> Outcome \<times> World" where
  "on_refresh_settled p RefreshRejects w = refresh_failed p w"
| "on_refresh_settled p (RefreshResponse NullBody) w = refresh_failed p w"
| "on_refresh_settled p (RefreshResponse (Body ta a)) w =
     (let newToken = or_else ta a in
      if truthy newToken then
        (let w1 = w\<lparr> store := setToken (or_empty newToken) (store w) \<rparr> in
         case config (p_error p) of
           Some cfg \<Rightarrow>
             (let cfg' = cfg\<lparr> authorization := Some (''Bearer '' @ or_empty newToken) \<rparr>
              in (ReturnAxios cfg', w1\<lparr> net_log := net_log w1 @ [AxiosRequest cfg'] \<rparr>))
         | None \<Rightarrow> (Reject (p_error p), w1))
      else (Reject (p_error p), w))"

text \<open>The whole handler of \<open>api\<close>, with the refresh call's result as an input.\<close>

definition response_interceptor :: "AxiosError \<Rightarrow> RefreshResult \<Rightarrow> World \<Rightarrow> Outcome \<times> World" where
  "response_interceptor err rr w =
     (case on_rejected err w of
        (Settled out, w') \<Rightarrow> (out, w')
      | (Awaiting p, w') \<Rightarrow> on_refresh_settled p rr w')"

text \<open>The rejection handler of \<open>superApi\<close>.\<close>

definition superApi_response_interceptor :: "AxiosError \<Rightarrow> World \<Rightarrow> Outcome \<times> World" where
  "superApi_response_interceptor err w =
     (if status err = Some 401
      then (Reject err, w\<lparr> store := superLogout (store w), href := Some ''/s-panel/access'' \<rparr>)
      else (Reject err, w))"

subsection \<open>Several failed requests on one event loop\<close>

text \<open>
  The event loop runs one continuation at a time. A request's handler starts when its
  response error arrives and resumes when its own refresh call settles; between the
  two, handlers of other requests may run. Requests are told apart by a number.
\<close>

datatype Event =
    ResponseError nat AxiosError
  | RefreshSettled nat RefreshResult

record Gateway =
  world :: World
  pending :: "(nat \<times> Pending) list"
  settled :: "(nat \<times> Outcome) list"

fun gateway_step :: "Event \<Rightarrow> Gateway \<Rightarrow> Gateway" where
  "gateway_step (ResponseError i err) g =
     (case on_rejected err (world g) of
        (Settled out, w') \<Rightarrow> g\<lparr> world := w', settled := settled g @ [(i, out)] \<rparr>
      | (Awaiting p, w') \<Rightarrow> g\<lparr> world := w', pending := pending g @ [(i, p)] \<rparr>)"
| "gateway_step (RefreshSettled i rr) g =
     (case map_of (pending g) i of
        None \<Rightarrow> g
      | Some p \<Rightarrow>
          (case on_refresh_settled p rr (world g) of
             (out, w') \<Rightarrow>
               g\<lparr> world := w',
                  pending := filter (\<lambda>q. fst q \<noteq> i) (pending g),
                  settled := settled g @ [(i, out)] \<rparr>))"

fun run_events :: "Gateway \<Rightarrow> Event list \<Rightarrow> Gateway" where
  "run_events g [] = g"
| "run_events g (e # es) = run_events (gateway_step e g) es"

fun is_refresh :: "NetCall \<Rightarrow> bool" where
  "is_refresh (RefreshPost u r) = True"
| "is_refresh (AxiosRequest c) = False"

definition refresh_calls :: "World \<Rightarrow> NetCall list" where
  "refresh_calls w = filter is_refresh (net_log w)"

text \<open>N requests whose 401 responses arrive before any refresh call settles.\<close>

definition concurrent_401s :: "(nat \<times> AxiosError) list \<Rightarrow> Event list" where
  "concurrent_401s reqs = map (\<lambda>q. ResponseError (fst q) (snd q)) reqs"

text \<open>What the handler of request \<open>q\<close> holds while its refresh call is in flight.\<close>

definition pending_of :: "string \<Rightarrow> nat \<times> AxiosError \<Rightarrow> nat \<times> Pending" where
  "pending_of slug q = (fst q, \<lparr> p_error = snd q, p_tenantSlug = slug \<rparr>)"

text \<open>The refresh calls of a batch settling, each with the error of its request.\<close>

definition settle_events :: "(nat \<times> AxiosError \<times> RefreshResult) list \<Rightarrow> Event list" where
  "settle_events rs = map (\<lambda>r. RefreshSettled (fst r) (snd (snd r))) rs"

text \<open>
  What C1, as amended below, says a request receives from the result of its own refresh
  call: the replay carrying the new token when the call yields one and the error carries
  the request, the original error otherwise. It is stated from the claim and compared
  with the handler in the properties.
\<close>

fun claimed_outcome :: "AxiosError \<Rightarrow> RefreshResult \<Rightarrow> Outcome" where
  "claimed_outcome e RefreshRejects = Reject e"
| "claimed_outcome e (RefreshResponse NullBody) = Reject e"
| "claimed_outcome e (RefreshResponse (Body ta a)) =
     (if truthy (or_else ta a) then
        (case config e of
           Some cfg \<Rightarrow>
             ReturnAxios (cfg\<lparr> authorization := Some (''Bearer '' @ or_empty (or_else ta a)) \<rparr>)
         | None \<Rightarrow> Reject e)
      else Reject e)"

definition idle_gateway :: "AuthState \<Rightarrow> Gateway" where
  "idle_gateway s =
     \<lparr> world = \<lparr> store = s, href = None, net_log = [] \<rparr>, pending = [], settled = [] \<rparr>"

section \<open>Operator login (pages/super/SuperLogin)\<close>

text \<open>The component state of \<open>SuperLoginPage\<close> that the step handlers read or write.\<close>

record LoginState =
  step :: nat
  username :: string
  password :: string
  pin :: string
  securityCode :: string
  hasPin :: bool
  hasCode :: bool
  error :: string
  loading :: bool
  lockMsg :: "string option"

definition initial_login :: LoginState where
  "initial_login =
     \<lparr> step = 1, username = [], password = [], pin = [], securityCode = [],
       hasPin = True, hasCode = True, error = [], loading = False, lockMsg = Some [] \<rparr>"

text \<open>A failed call: \<open>err.response?.status\<close> and \<open>err.response?.data?.detail\<close>.\<close>

record ApiError =
  e_status :: "nat option"
  e_detail :: "string option"

datatype Step2Response = Step2Fails ApiError | Step2Ok (has_pin: bool) (has_code: bool)

datatype Step4Response = Step4Fails ApiError | Step4Ok SuperAdmin string string

text \<open>The posts to the operator instance, with their bodies.\<close>

datatype LoginPost =
    VerifyStep1 string
  | VerifyStep2 string string
  | VerifyStep3 string string string
  | VerifyStep4 string string string string

text \<open>The page state, the store, the posts issued and the last navigation.\<close>

record LoginWorld =
  ui :: LoginState
  auth :: AuthState
  posts :: "LoginPost list"
  navigated :: "string option"

text \<open>\<open>p || '000000'\<close> and \<open>sc || 'default'\<close> on plain strings.\<close>

definition or_default :: "string \<Rightarrow> string \<Rightarrow> string" where
  "or_default s d = (if s \<noteq> [] then s else d)"

definition detail_or_Xatolik :: "ApiError \<Rightarrow> string" where
  "detail_or_Xatolik e = or_empty (or_else (e_detail e) (Some ''Xatolik''))"

text \<open>\<open>doFinalLogin(p, sc)\<close>, with the server's answer to the step-4 call as an input.\<close>

definition doFinalLogin :: "string \<Rightarrow> string \<Rightarrow> Step4Response \<Rightarrow> LoginWorld \<Rightarrow> LoginWorld" where
  "doFinalLogin p sc r4 w =
     (let w1 = w\<lparr> posts := posts w @
                 [VerifyStep4 (username (ui w)) (password (ui w))
                    (or_default p ''000000'') (or_default sc ''default'')] \<rparr>
      in case r4 of
           Step4Ok a access refresh \<Rightarrow>
             w1\<lparr> auth := setSuperAuth a access refresh (auth w1),
                 navigated := Some ''/s-panel/dashboard'' \<rparr>
         | Step4Fails e \<Rightarrow> w1\<lparr> ui := (ui w1)\<lparr> error := detail_or_Xatolik e \<rparr> \<rparr>)"

text \<open>
  \<open>handleStep2\<close>, with the server's answers to the step-2 call and, should the handler
  finalize, to the step-4 call as inputs.
\<close>

definition handleStep2 :: "Step2Response \<Rightarrow> Step4Response \<Rightarrow> LoginWorld \<Rightarrow> LoginWorld" where
  "handleStep2 r2 r4 w =
     (if password (ui w) = [] then w
      else
        (let w1 = w\<lparr> ui := (ui w)\<lparr> loading := True, error := [] \<rparr>,
                     posts := posts w @ [VerifyStep2 (username (ui w)) (password (ui w))] \<rparr>;
             w2 =
               (case r2 of
                  Step2Ok hp hc \<Rightarrow>
                    (let w' = w1\<lparr> ui := (ui w1)\<lparr> hasPin := hp, hasCode := hc \<rparr> \<rparr> in
                     if \<not> hp \<and> \<not> hc then doFinalLogin [] [] r4 w'
                     else if \<not> hp then w'\<lparr> ui := (ui w')\<lparr> step := 4 \<rparr> \<rparr>
                     else w'\<lparr> ui := (ui w')\<lparr> step := 3 \<rparr> \<rparr>)
                | Step2Fails e \<Rightarrow>
                    (if e_status e = Some 423
                     then w1\<lparr> ui := (ui w1)\<lparr> lockMsg := e_detail e \<rparr> \<rparr>
                     else w1\<lparr> ui := (ui w1)\<lparr> error := detail_or_Xatolik e \<rparr> \<rparr>))
         in w2\<lparr> ui := (ui w2)\<lparr> loading := False \<rparr> \<rparr>))"

fun is_step3_post :: "LoginPost \<Rightarrow> bool" where
  "is_step3_post (VerifyStep3 u p n) = True"
| "is_step3_post other = False"

section \<open>Access gate (TenantProtectedRoute)\<close>

text \<open>The component state: \<open>paymentBlock\<close> and \<open>paymentMsg\<close>.\<close>

record GateState =
  paymentBlock :: bool
  paymentMsg :: string

definition initial_gate :: GateState where
  "initial_gate = \<lparr> paymentBlock = False, paymentMsg = [] \<rparr>"

text \<open>
  The mount effect "Init from user": when the user of the first render carries a
  \<open>payment_required\<close> flag, the gate starts from that flag and the user's message.
  Mount effects run before the first poll's answer arrives.
\<close>

definition init_from_user :: "User option \<Rightarrow> GateState \<Rightarrow> GateState" where
  "init_from_user captured g =
     (case captured of
        None \<Rightarrow> g
      | Some u \<Rightarrow>
          (case payment_required u of
             None \<Rightarrow> g
           | Some b \<Rightarrow>
               \<lparr> paymentBlock = b,
                 paymentMsg = or_empty (or_else (payment_message u) (Some [])) \<rparr>))"

definition mounted_gate :: "AuthState \<Rightarrow> GateState" where
  "mounted_gate s = init_from_user (user s) initial_gate"

text \<open>
  The body of \<open>GET /api/v1/tenant/{slug}/info\<close> as the gate reads it;
  \<open>!!data.payment_required\<close> is true only for a present, true flag.
\<close>

record TenantInfo =
  info_payment_required :: "bool option"
  info_payment_message :: "string option"

datatype Poll = PollFails | PollOk TenantInfo

text \<open>
  \<open>checkTenantStatus\<close>. The callback is memoised on \<open>urlSlug\<close> alone, so the \<open>user\<close> it
  reads is the one of the render that created it: an input of its own here, next to the
  store the callback writes through \<open>setUser\<close>.
\<close>

definition checkTenantStatus ::
  "string option \<Rightarrow> User option \<Rightarrow> Poll \<Rightarrow> GateState \<times> AuthState \<Rightarrow> GateState \<times> AuthState" where
  "checkTenantStatus urlSlug captured poll gs =
     (if \<not> truthy urlSlug then gs
      else
        (case poll of
           PollFails \<Rightarrow> gs
         | PollOk info \<Rightarrow>
             (let required = (info_payment_required info = Some True);
                  msg = or_empty (or_else (info_payment_message info) (Some []));
                  gate' = \<lparr> paymentBlock = required, paymentMsg = msg \<rparr>
              in case captured of
                   None \<Rightarrow> (gate', snd gs)
                 | Some u \<Rightarrow>
                     if payment_required u \<noteq> Some required
                     then (gate',
                           setUser (u\<lparr> payment_required := Some required,
                                        payment_message := Some msg \<rparr>) (snd gs))
                     else (gate', snd gs))))"

fun run_polls ::
  "string option \<Rightarrow> User option \<Rightarrow> GateState \<times> AuthState \<Rightarrow> Poll list \<Rightarrow> GateState \<times> AuthState" where
  "run_polls urlSlug captured gs [] = gs"
| "run_polls urlSlug captured gs (p # ps) =
     run_polls urlSlug captured (checkTenantStatus urlSlug captured p gs) ps"

text \<open>What the route renders.\<close>

datatype View = Spinner | RedirectTo string | Overlay string | Children

definition default_payment_text :: string where
  "default_payment_text =
     ''Dasturdan foydalanish uchun iltimos to'' @ [CHR 0x27] @
     ''lovni amalga oshiring. Administrator bilan bog'' @ [CHR 0x27] @ ''laning.''"

definition TenantProtectedRoute :: "AuthState \<Rightarrow> string option \<Rightarrow> GateState \<Rightarrow> View" where
  "TenantProtectedRoute s urlSlug g =
     (if \<not> hasHydrated s then Spinner
      else if \<not> isAuthenticated s \<or> tenantSlug s = None \<or> urlSlug = None
              \<or> tenantSlug s \<noteq> urlSlug
      then RedirectTo (''/'' @ (case urlSlug of None \<Rightarrow> ''undefined'' | Some sl \<Rightarrow> sl) @ ''/login'')
      else if paymentBlock g
      then Overlay (if paymentMsg g \<noteq> [] then paymentMsg g else default_payment_text)
      else Children)"

text \<open>
  The store fields that make up a session and its credentials: every field but the
  display record \<open>user\<close>.
\<close>

definition credentials ::
  "AuthState \<Rightarrow> (string option \<times> string option \<times> string option \<times> bool)
     \<times> (SuperAdmin option \<times> string option \<times> string option \<times> bool) \<times> bool" where
  "credentials s =
     ((token s, refreshToken s, tenantSlug s, isAuthenticated s),
      (superAdmin s, superToken s, superRefreshToken s, isSuperAdmin s),
      hasHydrated s)"

section \<open>Concrete values used in the examples\<close>

definition ex_user :: User where
  "ex_user =
     \<lparr> user_id = 1, role_type = ''seller'', permissions = Some [''sales.view''],
       tenant_name = Some ''Acme'', payment_required = Some False, payment_message = None \<rparr>"

definition ex_admin :: SuperAdmin where
  "ex_admin = \<lparr> admin_id = 1, admin_username = ''root'' \<rparr>"

text \<open>A tenant session of \<open>acme\<close> and an operator session, each set up from the initial store.\<close>

definition acme_store :: AuthState where
  "acme_store = setAuth ex_user ''T1'' ''R1'' ''acme'' initial_state"

definition operator_store :: AuthState where
  "operator_store = setSuperAuth ex_admin ''A'' ''R'' initial_state"

definition world_of :: "AuthState \<Rightarrow> World" where
  "world_of s = \<lparr> store = s, href = None, net_log = [] \<rparr>"

text \<open>The 401 answer to a request the tenant instance sent for \<open>path\<close>.\<close>

definition failed_401 :: "AuthState \<Rightarrow> string \<Rightarrow> AxiosError" where
  "failed_401 s path = \<lparr> status = Some 401, config = Some (api_call s path) \<rparr>"

text \<open>Two requests of the \<open>acme\<close> session that are both answered 401.\<close>

definition two_requests :: "(nat \<times> AxiosError) list" where
  "two_requests = [(1, failed_401 acme_store ''/products''), (2, failed_401 acme_store ''/customers'')]"

text \<open>A refresh call that resolves with the new access token \<open>T2\<close>.\<close>

definition ok_T2 :: RefreshResult where
  "ok_T2 = RefreshResponse (Body None (Some ''T2''))"

text \<open>The operator login page after step 1, with a password typed in.\<close>

definition login_at_step2 :: LoginWorld where
  "login_at_step2 =
     \<lparr> ui = initial_login\<lparr> step := 2, username := ''admin'', password := ''secret'' \<rparr>,
       auth = initial_state, posts = [VerifyStep1 ''admin''], navigated = None \<rparr>"

text \<open>Polls that report \<open>payment_required\<close> false, then true, then false.\<close>

definition info_of :: "bool \<Rightarrow> string \<Rightarrow> TenantInfo" where
  "info_of b m = \<lparr> info_payment_required = Some b, info_payment_message = Some m \<rparr>"

definition toggle_polls :: "Poll list" where
  "toggle_polls = [PollOk (info_of False []), PollOk (info_of True ''Pay''), PollOk (info_of False [])]"

definition hydrated_acme :: AuthState where
  "hydrated_acme = setHasHydrated True acme_store"

section \<open>Credential store: properties\<close>

lemma establish_exclusive: "domain_exclusive (establish c s)"
  by (cases c)
     (simp_all add: domain_exclusive_def tenant_has_tokens_def operator_has_tokens_def
        setAuth_def setSuperAuth_def)

lemma run_calls_append: "run_calls s (cs @ [c]) = establish c (run_calls s cs)"
  by (induction cs arbitrary: s) simp_all

lemma initial_exclusive: "domain_exclusive initial_state"
  by (simp add: domain_exclusive_def tenant_has_tokens_def initial_state_def)

lemma run_calls_exclusive: "domain_exclusive (run_calls initial_state cs)"
proof (induction cs rule: rev_induct)
  case Nil
  show ?case by (simp add: initial_exclusive)
next
  case (snoc c cs)
  show ?case by (simp add: run_calls_append establish_exclusive)
qed

text \<open>
  C2. Domain exclusivity. Starting from the initial store, after every prefix of any
  sequence of \<open>setAuth\<close> / \<open>setSuperAuth\<close> calls at most one identity domain has a
  non-null token; \<open>setAuth\<close> leaves every operator-session field cleared and
  \<open>setSuperAuth\<close> leaves every tenant-session field cleared, whatever the store held.
\<close>

theorem C2_domain_exclusivity:
  "domain_exclusive (run_calls initial_state (take n cs))
   \<and> operator_cleared (setAuth u t r sl s)
   \<and> tenant_cleared (setSuperAuth a t' r' s)"
  by (simp add: run_calls_exclusive operator_cleared_def tenant_cleared_def
        setAuth_def setSuperAuth_def)

theorem C2_domain_exclusivity_witness:
  "domain_exclusive
     (run_calls initial_state
        (take 2
          [EstablishTenant ex_user ''A1'' ''R1'' ''acme'',
           EstablishOperator ex_admin ''A2'' ''R2'',
           EstablishTenant ex_user ''A3'' ''R3'' ''beta'']))
   \<and> superToken
       (run_calls initial_state
          [EstablishTenant ex_user ''A1'' ''R1'' ''acme'',
           EstablishOperator ex_admin ''A2'' ''R2'']) = Some ''A2''
   \<and> token
       (run_calls initial_state
          [EstablishTenant ex_user ''A1'' ''R1'' ''acme'',
           EstablishOperator ex_admin ''A2'' ''R2'']) = None"
  using C2_domain_exclusivity
    [of 2 "[EstablishTenant ex_user ''A1'' ''R1'' ''acme'',
            EstablishOperator ex_admin ''A2'' ''R2'',
            EstablishTenant ex_user ''A3'' ''R3'' ''beta'']"]
  by (simp add: setAuth_def setSuperAuth_def initial_state_def)

text \<open>
  C8 (as stated, refuted). With an operator session active, \<open>setToken\<close> does not replace
  the access token of the active domain: the operator's \<open>superToken\<close> keeps its value and
  the tenant field \<open>token\<close>, a field of the other domain, is written.
\<close>

theorem C8_setToken_operator_counterexample:
  "isSuperAdmin operator_store
   \<and> \<not> isAuthenticated operator_store
   \<and> superToken operator_store = Some ''A''
   \<and> superToken (setToken ''T2'' operator_store) = Some ''A''
   \<and> token operator_store = None
   \<and> token (setToken ''T2'' operator_store) = Some ''T2''"
  by (simp add: setToken_def setSuperAuth_def initial_state_def operator_store_def)

text \<open>
  C8 (amended). For every store state, \<open>setToken\<close> replaces the tenant access token
  \<open>token\<close>, whichever domain is active, and leaves every other field unchanged: the
  refresh token, the user, the tenant slug, the authentication flag, all operator-session
  fields and the hydration flag.
\<close>

theorem C8_setToken_frame:
  "token (setToken t s) = Some t
   \<and> refreshToken (setToken t s) = refreshToken s
   \<and> user (setToken t s) = user s
   \<and> tenantSlug (setToken t s) = tenantSlug s
   \<and> isAuthenticated (setToken t s) = isAuthenticated s
   \<and> superAdmin (setToken t s) = superAdmin s
   \<and> superToken (setToken t s) = superToken s
   \<and> superRefreshToken (setToken t s) = superRefreshToken s
   \<and> isSuperAdmin (setToken t s) = isSuperAdmin s
   \<and> hasHydrated (setToken t s) = hasHydrated s"
  by (simp add: setToken_def)

text \<open>
  C10. \<open>hasPermission p\<close> is false for every \<open>p\<close> when no tenant user is stored; true for
  every \<open>p\<close> when the stored user's \<open>role_type\<close> is \<open>director\<close>, whatever the permission
  list; otherwise true exactly when \<open>p\<close> is in the user's permission list, and false
  when that list is absent.
\<close>

theorem C10_hasPermission:
  "(user s = None \<longrightarrow> \<not> hasPermission s p)
   \<and> (user s = Some u \<and> role_type u = ''director'' \<longrightarrow> hasPermission s p)
   \<and> (user s = Some u \<and> role_type u \<noteq> ''director'' \<and> permissions u = Some ps
        \<longrightarrow> hasPermission s p = (p \<in> set ps))
   \<and> (user s = Some u \<and> role_type u \<noteq> ''director'' \<and> permissions u = None
        \<longrightarrow> \<not> hasPermission s p)"
  by (simp add: hasPermission_def)

theorem C10_hasPermission_witness:
  "\<not> hasPermission initial_state ''sales.view''
   \<and> hasPermission
       (setUser (ex_user\<lparr> role_type := ''director'', permissions := None \<rparr>) acme_store)
       ''sales.view''
   \<and> hasPermission acme_store ''sales.view''
   \<and> \<not> hasPermission acme_store ''sales.edit''
   \<and> \<not> hasPermission (setUser (ex_user\<lparr> permissions := None \<rparr>) acme_store) ''sales.view''"
  using C10_hasPermission [where s = initial_state and p = "''sales.view''"]
    C10_hasPermission
      [where s = "setUser (ex_user\<lparr> role_type := ''director'', permissions := None \<rparr>) acme_store"
         and u = "ex_user\<lparr> role_type := ''director'', permissions := None \<rparr>"
         and p = "''sales.view''"]
    C10_hasPermission
      [where s = acme_store and u = ex_user and p = "''sales.view''" and ps = "[''sales.view'']"]
    C10_hasPermission
      [where s = acme_store and u = ex_user and p = "''sales.edit''" and ps = "[''sales.view'']"]
    C10_hasPermission
      [where s = "setUser (ex_user\<lparr> permissions := None \<rparr>) acme_store"
         and u = "ex_user\<lparr> permissions := None \<rparr>" and p = "''sales.view''"]
  by (simp add: setAuth_def setUser_def initial_state_def ex_user_def acme_store_def)

section \<open>Tenant resolver: properties\<close>

text \<open>
  C5 (as stated, refuted). With no tenant slug stored, a call through the tenant instance
  gets no base URL at all, not \<open>/api/v1\<close>; and with the tenant session of \<open>acme\<close> active, a
  call whose path is empty (not an operator path) gets no tenant base URL either.
\<close>

theorem C5_no_fallback_counterexample:
  "tenantSlug initial_state = None
   \<and> baseURL (api_call initial_state ''/products'') = None
   \<and> baseURL (api_call initial_state ''/products'') \<noteq> Some ''/api/v1''
   \<and> tenantSlug acme_store = Some ''acme''
   \<and> \<not> startsWith [] ''/api/v1/super''
   \<and> baseURL (api_call acme_store []) = None"
  by (simp add: api_call_def api_request_def api_defaults_def initial_state_def
        acme_store_def setAuth_def startsWith_def)

text \<open>
  C5 (amended). While a tenant session with a non-empty slug \<open>S\<close> is stored, a call with a
  non-empty path that does not start with \<open>/api/v1/super\<close> gets the base URL
  \<open>/api/v1/S\<close>; for a path that starts with \<open>/api/v1/super\<close> the request interceptor
  leaves the base URL as it was (none, for a call on the instance's defaults), so it is
  never prefixed with \<open>S\<close>; the operator instance's interceptor never changes the base
  URL, which is \<open>/api/v1/super\<close> for its calls whatever the tenant state; and with no
  tenant slug stored the tenant interceptor leaves the base URL as it was, which is none
  for a call on the instance's defaults: \<open>/api/v1\<close> is what the helper
  \<open>getTenantBaseURL\<close> returns then, and the instance does not use the helper.
\<close>

theorem C5_partition:
  "(tenantSlug s = Some S \<and> S \<noteq> [] \<and> url cfg = Some path \<and> path \<noteq> []
      \<and> \<not> startsWith path ''/api/v1/super''
      \<longrightarrow> baseURL (api_request s cfg) = Some (''/api/v1/'' @ S)
          \<and> baseURL (api_call s path) = Some (''/api/v1/'' @ S))
   \<and> (url cfg = Some path \<and> startsWith path ''/api/v1/super''
      \<longrightarrow> baseURL (api_request s cfg) = baseURL cfg
          \<and> baseURL (api_call s path) = None)
   \<and> baseURL (superApi_request s cfg) = baseURL cfg
   \<and> baseURL (superApi_call s path) = Some ''/api/v1/super''
   \<and> (\<not> truthy (tenantSlug s)
      \<longrightarrow> baseURL (api_request s cfg) = baseURL cfg
          \<and> baseURL (api_call s path) = None
          \<and> getTenantBaseURL s = ''/api/v1'')"
  by (simp add: api_call_def api_request_def api_defaults_def superApi_call_def
        superApi_request_def superApi_defaults_def getTenantBaseURL_def Let_def)

theorem C5_partition_witness:
  "baseURL (api_call acme_store ''/products'') = Some ''/api/v1/acme''
   \<and> baseURL (api_call acme_store ''/api/v1/super/tenants'') = None
   \<and> baseURL (superApi_call acme_store ''/tenants'') = Some ''/api/v1/super''
   \<and> baseURL (api_call initial_state ''/products'') = None"
  using C5_partition
      [where s = acme_store and S = "''acme''" and path = "''/products''"
         and cfg = "api_defaults\<lparr> url := Some ''/products'' \<rparr>"]
    C5_partition
      [where s = acme_store and path = "''/api/v1/super/tenants''"
         and cfg = "api_defaults\<lparr> url := Some ''/api/v1/super/tenants'' \<rparr>"]
    C5_partition [where s = acme_store and path = "''/tenants''"]
    C5_partition [where s = initial_state and path = "''/products''"]
  by (simp add: acme_store_def setAuth_def initial_state_def startsWith_def)

section \<open>Request gateway: properties\<close>

lemma on_rejected_refresh:
  "status err = Some 401 \<Longrightarrow> truthy (refreshToken (store w)) \<Longrightarrow> truthy (tenantSlug (store w)) \<Longrightarrow>
   on_rejected err w =
     (Awaiting \<lparr> p_error = err, p_tenantSlug = or_empty (tenantSlug (store w)) \<rparr>,
      w\<lparr> net_log := net_log w @
            [RefreshPost (''/api/v1/'' @ or_empty (tenantSlug (store w)) @ ''/auth/refresh'')
               (or_empty (refreshToken (store w)))] \<rparr>)"
  by (simp add: on_rejected_def Let_def)

lemma on_rejected_no_refresh:
  "status err = Some 401 \<Longrightarrow> \<not> (truthy (refreshToken (store w)) \<and> truthy (tenantSlug (store w))) \<Longrightarrow>
   on_rejected err w =
     (Settled (Reject err),
      w\<lparr> store := logout (store w),
         href := Some (if truthy (tenantSlug (store w))
                       then ''/'' @ or_empty (tenantSlug (store w)) @ ''/login''
                       else ''/s-panel/access'') \<rparr>)"
  by (cases "tenantSlug (store w)") (auto simp add: on_rejected_def Let_def)

lemma on_rejected_other:
  "status err \<noteq> Some 401 \<Longrightarrow> on_rejected err w = (Settled (Reject err), w)"
  by (simp add: on_rejected_def)

text \<open>
  C3. Refresh-success replay. For a tenant request that fails with 401 while a refresh
  token and a tenant slug are stored (truthy) and whose error carries the request's
  configuration: if the refresh call resolves with a body that yields a new access token,
  then the store's access token becomes the new token (nothing else in the store
  changes), the handler issues the refresh call and then the original request exactly
  once, with \<open>Authorization: Bearer <new token>\<close>, and what the caller receives is the
  result of that replay, not the 401.
\<close>

theorem C3_refresh_replay:
  assumes "status err = Some 401"
    and "truthy (refreshToken (store w))"
    and "truthy (tenantSlug (store w))"
    and "config err = Some cfg"
    and "truthy (or_else ta a)"
    and "tok = or_empty (or_else ta a)"
    and "cfg' = cfg\<lparr> authorization := Some (''Bearer '' @ tok) \<rparr>"
    and "w' = snd (response_interceptor err (RefreshResponse (Body ta a)) w)"
  shows "fst (response_interceptor err (RefreshResponse (Body ta a)) w) = ReturnAxios cfg'
    \<and> caller_result net (fst (response_interceptor err (RefreshResponse (Body ta a)) w)) = net cfg'
    \<and> token (store w') = Some tok
    \<and> net_log w' = net_log w @
         [RefreshPost (''/api/v1/'' @ or_empty (tenantSlug (store w)) @ ''/auth/refresh'')
            (or_empty (refreshToken (store w))),
          AxiosRequest cfg']
    \<and> href w' = href w
    \<and> store w' = (store w)\<lparr> token := Some tok \<rparr>"
  using assms
  by (simp add: response_interceptor_def on_rejected_refresh Let_def caller_result_def setToken_def)

theorem C3_refresh_replay_witness:
  "fst (response_interceptor (failed_401 acme_store ''/products'')
          (RefreshResponse (Body None (Some ''T2''))) (world_of acme_store))
     = ReturnAxios \<lparr> url = Some ''/products'', baseURL = Some ''/api/v1/acme'',
                     authorization = Some ''Bearer T2'' \<rparr>
   \<and> token (store (snd (response_interceptor (failed_401 acme_store ''/products'')
          (RefreshResponse (Body None (Some ''T2''))) (world_of acme_store)))) = Some ''T2''
   \<and> net_log (snd (response_interceptor (failed_401 acme_store ''/products'')
          (RefreshResponse (Body None (Some ''T2''))) (world_of acme_store)))
     = [RefreshPost ''/api/v1/acme/auth/refresh'' ''R1'',
        AxiosRequest \<lparr> url = Some ''/products'', baseURL = Some ''/api/v1/acme'',
                     authorization = Some ''Bearer T2'' \<rparr>]"
  using C3_refresh_replay
    [where err = "failed_401 acme_store ''/products''" and w = "world_of acme_store"
       and cfg = "api_call acme_store ''/products''" and ta = None and a = "Some ''T2''"
       and tok = "''T2''"
       and cfg' = "(api_call acme_store ''/products'')\<lparr> authorization := Some ''Bearer T2'' \<rparr>",
     OF _ _ _ _ _ _ _ refl]
  by (simp add: failed_401_def world_of_def acme_store_def setAuth_def initial_state_def
        or_else_def api_call_def api_request_def api_defaults_def startsWith_def
        response_interceptor_def on_rejected_def Let_def setToken_def)

text \<open>
  C4. Non-refreshable 401. A tenant request that fails with 401 while no refresh token is
  available: the tenant session is cleared, the browser is sent to \<open>/<slug>/login\<close>, or
  to \<open>/s-panel/access\<close> when no slug is stored, no network call is made and the original
  error is rejected to the caller. An operator request that fails with 401: no refresh is
  attempted, the operator session is cleared, the browser is sent to \<open>/s-panel/access\<close>
  and the original error is rejected.
\<close>

theorem C4_non_refreshable_401:
  "(status err = Some 401 \<and> \<not> truthy (refreshToken (store w))
      \<longrightarrow> fst (response_interceptor err rr w) = Reject err
          \<and> tenant_cleared (store (snd (response_interceptor err rr w)))
          \<and> href (snd (response_interceptor err rr w)) =
               Some (if truthy (tenantSlug (store w))
                     then ''/'' @ or_empty (tenantSlug (store w)) @ ''/login''
                     else ''/s-panel/access'')
          \<and> net_log (snd (response_interceptor err rr w)) = net_log w)
   \<and> (status err = Some 401
      \<longrightarrow> fst (superApi_response_interceptor err w) = Reject err
          \<and> operator_cleared (store (snd (superApi_response_interceptor err w)))
          \<and> href (snd (superApi_response_interceptor err w)) = Some ''/s-panel/access''
          \<and> net_log (snd (superApi_response_interceptor err w)) = net_log w)"
  by (simp add: response_interceptor_def on_rejected_no_refresh superApi_response_interceptor_def
        tenant_cleared_def operator_cleared_def logout_def superLogout_def)

theorem C4_non_refreshable_401_witness:
  "href (snd (response_interceptor (failed_401 acme_store ''/products'') RefreshRejects
           (world_of (acme_store\<lparr> refreshToken := None \<rparr>)))) = Some ''/acme/login''
   \<and> token (store (snd (response_interceptor (failed_401 acme_store ''/products'') RefreshRejects
           (world_of (acme_store\<lparr> refreshToken := None \<rparr>))))) = None
   \<and> href (snd (response_interceptor (failed_401 initial_state ''/products'') RefreshRejects
           (world_of initial_state))) = Some ''/s-panel/access''
   \<and> href (snd (superApi_response_interceptor \<lparr> status = Some 401, config = None \<rparr>
           (world_of operator_store))) = Some ''/s-panel/access''
   \<and> superToken (store (snd (superApi_response_interceptor \<lparr> status = Some 401, config = None \<rparr>
           (world_of operator_store)))) = None"
  using C4_non_refreshable_401
      [where err = "failed_401 acme_store ''/products''" and rr = RefreshRejects
         and w = "world_of (acme_store\<lparr> refreshToken := None \<rparr>)"]
    C4_non_refreshable_401
      [where err = "failed_401 initial_state ''/products''" and rr = RefreshRejects
         and w = "world_of initial_state"]
    C4_non_refreshable_401
      [where err = "\<lparr> status = Some 401, config = None \<rparr>" and w = "world_of operator_store"]
  by (simp add: failed_401_def world_of_def acme_store_def operator_store_def setAuth_def
        setSuperAuth_def initial_state_def tenant_cleared_def operator_cleared_def)

text \<open>
  C9. The tenant handler issues a refresh call only for a 401 with both a refresh token
  and a tenant slug stored (truthy). On a 401 with a non-null refresh token and a null
  tenant slug no network call is made, the tenant session is cleared, the browser is sent
  to \<open>/s-panel/access\<close> and the original error is rejected.
\<close>

theorem C9_refresh_needs_token_and_slug:
  "(refresh_calls (snd (response_interceptor err rr w)) \<noteq> refresh_calls w
      \<longrightarrow> status err = Some 401 \<and> truthy (refreshToken (store w)) \<and> truthy (tenantSlug (store w)))
   \<and> (status err = Some 401 \<and> refreshToken (store w) \<noteq> None \<and> tenantSlug (store w) = None
      \<longrightarrow> net_log (snd (response_interceptor err rr w)) = net_log w
          \<and> tenant_cleared (store (snd (response_interceptor err rr w)))
          \<and> href (snd (response_interceptor err rr w)) = Some ''/s-panel/access''
          \<and> fst (response_interceptor err rr w) = Reject err)"
proof -
  have a: "status err = Some 401 \<and> truthy (refreshToken (store w)) \<and> truthy (tenantSlug (store w))"
    if "refresh_calls (snd (response_interceptor err rr w)) \<noteq> refresh_calls w"
  proof (rule ccontr)
    assume n: "\<not> ?thesis"
    have "refresh_calls (snd (response_interceptor err rr w)) = refresh_calls w"
    proof (cases "status err = Some 401")
      case True
      with n show ?thesis
        by (simp add: response_interceptor_def on_rejected_no_refresh refresh_calls_def)
    next
      case False
      then show ?thesis by (simp add: response_interceptor_def on_rejected_other)
    qed
    with that show False by simp
  qed
  have b: "net_log (snd (response_interceptor err rr w)) = net_log w
          \<and> tenant_cleared (store (snd (response_interceptor err rr w)))
          \<and> href (snd (response_interceptor err rr w)) = Some ''/s-panel/access''
          \<and> fst (response_interceptor err rr w) = Reject err"
    if "status err = Some 401" "tenantSlug (store w) = None"
    using that
    by (simp add: response_interceptor_def on_rejected_no_refresh tenant_cleared_def logout_def)
  from a b show ?thesis by blast
qed

theorem C9_refresh_needs_token_and_slug_witness:
  "refresh_calls (snd (response_interceptor (failed_401 acme_store ''/products'') RefreshRejects
       (world_of acme_store))) = [RefreshPost ''/api/v1/acme/auth/refresh'' ''R1'']
   \<and> truthy (refreshToken acme_store) \<and> truthy (tenantSlug acme_store)
   \<and> net_log (snd (response_interceptor (failed_401 acme_store ''/products'') RefreshRejects
       (world_of (acme_store\<lparr> tenantSlug := None \<rparr>)))) = []
   \<and> refreshToken (acme_store\<lparr> tenantSlug := None \<rparr>) = Some ''R1''
   \<and> refreshToken (store (snd (response_interceptor (failed_401 acme_store ''/products'')
       RefreshRejects (world_of (acme_store\<lparr> tenantSlug := None \<rparr>))))) = None
   \<and> href (snd (response_interceptor (failed_401 acme_store ''/products'') RefreshRejects
       (world_of (acme_store\<lparr> tenantSlug := None \<rparr>)))) = Some ''/s-panel/access''"
  using C9_refresh_needs_token_and_slug
      [where err = "failed_401 acme_store ''/products''" and rr = RefreshRejects
         and w = "world_of acme_store"]
    C9_refresh_needs_token_and_slug
      [where err = "failed_401 acme_store ''/products''" and rr = RefreshRejects
         and w = "world_of (acme_store\<lparr> tenantSlug := None \<rparr>)"]
  by (simp add: failed_401_def world_of_def acme_store_def setAuth_def initial_state_def
        response_interceptor_def on_rejected_def Let_def refresh_failed_def refresh_calls_def
        tenant_cleared_def logout_def)

section \<open>Concurrent 401s: properties\<close>

lemma gateway_step_401:
  assumes "status err = Some 401"
    and "truthy (refreshToken (store (world g)))"
    and "truthy (tenantSlug (store (world g)))"
  shows "gateway_step (ResponseError i err) g =
     g\<lparr> world := (world g)\<lparr> net_log := net_log (world g) @
            [RefreshPost (''/api/v1/'' @ or_empty (tenantSlug (store (world g))) @ ''/auth/refresh'')
               (or_empty (refreshToken (store (world g))))] \<rparr>,
        pending := pending g @ [pending_of (or_empty (tenantSlug (store (world g)))) (i, err)] \<rparr>"
  using assms by (simp add: on_rejected_refresh pending_of_def)

lemma concurrent_401s_run:
  assumes "truthy (refreshToken (store (world g)))"
    and "truthy (tenantSlug (store (world g)))"
    and "\<forall>q \<in> set reqs. status (snd q) = Some 401"
  shows "store (world (run_events g (concurrent_401s reqs))) = store (world g)
    \<and> href (world (run_events g (concurrent_401s reqs))) = href (world g)
    \<and> net_log (world (run_events g (concurrent_401s reqs))) =
        net_log (world g) @
        replicate (length reqs)
          (RefreshPost (''/api/v1/'' @ or_empty (tenantSlug (store (world g))) @ ''/auth/refresh'')
             (or_empty (refreshToken (store (world g)))))
    \<and> pending (run_events g (concurrent_401s reqs)) =
        pending g @ map (pending_of (or_empty (tenantSlug (store (world g))))) reqs
    \<and> settled (run_events g (concurrent_401s reqs)) = settled g"
  using assms
proof (induction reqs arbitrary: g)
  case Nil
  show ?case by (simp add: concurrent_401s_def)
next
  case (Cons q reqs)
  define g1 where "g1 = gateway_step (ResponseError (fst q) (snd q)) g"
  have q: "status (snd q) = Some 401" using Cons.prems by simp
  have step: "g1 =
     g\<lparr> world := (world g)\<lparr> net_log := net_log (world g) @
            [RefreshPost (''/api/v1/'' @ or_empty (tenantSlug (store (world g))) @ ''/auth/refresh'')
               (or_empty (refreshToken (store (world g))))] \<rparr>,
        pending := pending g @ [pending_of (or_empty (tenantSlug (store (world g)))) (fst q, snd q)] \<rparr>"
    unfolding g1_def using gateway_step_401[OF q Cons.prems(1) Cons.prems(2)] .
  have s1: "store (world g1) = store (world g)" by (simp add: step)
  have p1: "truthy (refreshToken (store (world g1)))" "truthy (tenantSlug (store (world g1)))"
    using Cons.prems(1,2) by (simp_all only: s1)
  have p2: "\<forall>q \<in> set reqs. status (snd q) = Some 401" using Cons.prems(3) by simp
  note ih = Cons.IH[OF p1 p2]
  have unfold: "run_events g (concurrent_401s (q # reqs)) = run_events g1 (concurrent_401s reqs)"
    by (simp add: concurrent_401s_def g1_def)
  show ?case
    unfolding unfold using ih
    by (simp only: s1) (simp add: step)
qed

lemma pending_lookup:
  assumes "distinct (map fst reqs)" and "(i, e) \<in> set reqs"
  shows "map_of (map (pending_of slug) reqs) i = Some \<lparr> p_error = e, p_tenantSlug = slug \<rparr>"
proof -
  have d: "distinct (map fst (map (pending_of slug) reqs))"
    using assms(1) by (simp add: comp_def pending_of_def)
  have m: "(i, \<lparr> p_error = e, p_tenantSlug = slug \<rparr>) \<in> set (map (pending_of slug) reqs)"
    using assms(2) by (force simp add: pending_of_def)
  show ?thesis using map_of_is_SomeI[OF d m] .
qed

lemma on_refresh_settled_outcome:
  "fst (on_refresh_settled \<lparr> p_error = e, p_tenantSlug = sl \<rparr> rr w) = claimed_outcome e rr"
proof (cases rr)
  case RefreshRejects
  then show ?thesis by (simp add: refresh_failed_def)
next
  case (RefreshResponse b)
  then show ?thesis
    by (cases b) (simp_all add: refresh_failed_def Let_def split: option.split)
qed

lemma on_refresh_settled_refresh_calls:
  "refresh_calls (snd (on_refresh_settled p rr w)) = refresh_calls w"
proof (cases rr)
  case RefreshRejects
  then show ?thesis by (simp add: refresh_failed_def refresh_calls_def)
next
  case (RefreshResponse b)
  then show ?thesis
    by (cases b) (simp_all add: refresh_failed_def refresh_calls_def Let_def split: option.split)
qed

lemma settle_step:
  assumes "map_of (pending G) i = Some p"
  shows "gateway_step (RefreshSettled i rr) G =
     G\<lparr> world := snd (on_refresh_settled p rr (world G)),
        pending := filter (\<lambda>q. fst q \<noteq> i) (pending G),
        settled := settled G @ [(i, fst (on_refresh_settled p rr (world G)))] \<rparr>"
  using assms by (simp add: split_beta)

lemma map_of_filter_other:
  "j \<noteq> i \<Longrightarrow> map_of (filter (\<lambda>q. fst q \<noteq> i) xs) j = map_of xs j"
  by (induction xs) auto

lemma run_settles:
  assumes "distinct (map fst rs)"
    and "\<forall>r \<in> set rs. map_of (pending G) (fst r) = Some \<lparr> p_error = fst (snd r), p_tenantSlug = sl \<rparr>"
  shows "settled (run_events G (settle_events rs)) =
           settled G @ map (\<lambda>r. (fst r, claimed_outcome (fst (snd r)) (snd (snd r)))) rs
    \<and> pending (run_events G (settle_events rs)) =
           filter (\<lambda>q. fst q \<notin> fst ` set rs) (pending G)
    \<and> refresh_calls (world (run_events G (settle_events rs))) = refresh_calls (world G)"
  using assms
proof (induction rs arbitrary: G)
  case Nil
  show ?case by (simp add: settle_events_def)
next
  case (Cons r rs)
  define G1 where "G1 = gateway_step (RefreshSettled (fst r) (snd (snd r))) G"
  have look: "map_of (pending G) (fst r) = Some \<lparr> p_error = fst (snd r), p_tenantSlug = sl \<rparr>"
    using Cons.prems(2) by simp
  note st = settle_step[OF look, of "snd (snd r)", folded G1_def]
  have s1: "settled G1 = settled G @ [(fst r, claimed_outcome (fst (snd r)) (snd (snd r)))]"
    by (simp add: st on_refresh_settled_outcome)
  have p1: "pending G1 = filter (\<lambda>q. fst q \<noteq> fst r) (pending G)"
    by (simp add: st)
  have c1: "refresh_calls (world G1) = refresh_calls (world G)"
    by (simp add: st on_refresh_settled_refresh_calls)
  have d: "distinct (map fst rs)" using Cons.prems(1) by simp
  have others: "\<forall>r' \<in> set rs. map_of (pending G1) (fst r') =
      Some \<lparr> p_error = fst (snd r'), p_tenantSlug = sl \<rparr>"
  proof
    fix r' assume m: "r' \<in> set rs"
    have ne: "fst r' \<noteq> fst r" using Cons.prems(1) m by (auto simp add: image_iff)
    show "map_of (pending G1) (fst r') = Some \<lparr> p_error = fst (snd r'), p_tenantSlug = sl \<rparr>"
      using Cons.prems(2) m by (simp add: p1 map_of_filter_other[OF ne])
  qed
  note ih = Cons.IH[OF d others]
  have unfold: "run_events G (settle_events (r # rs)) = run_events G1 (settle_events rs)"
    by (simp add: settle_events_def G1_def)
  have flt: "filter (\<lambda>q. fst q \<notin> fst ` set rs) (filter (\<lambda>q. fst q \<noteq> fst r) (pending G))
      = filter (\<lambda>q. fst q \<notin> fst ` set (r # rs)) (pending G)"
    by (auto intro: filter_cong)
  show ?case
    unfolding unfold using ih by (simp only: s1 p1 c1 flt) simp
qed

lemma pending_of_filter:
  "filter (\<lambda>q. fst q \<notin> A) (map (pending_of sl) reqs) =
   map (pending_of sl) (filter (\<lambda>q. fst q \<notin> A) reqs)"
  by (induction reqs) (simp_all add: pending_of_def)

text \<open>
  C1 (as stated, refuted). Two requests of one tenant session receive a 401 before any
  refresh settles: two refresh calls are issued, not one; and when the first request's
  refresh yields a token and the second's is rejected, the first request is replayed
  while the second is rejected, so they neither succeed nor fail together.
\<close>

theorem C1_two_refreshes_counterexample:
  "refresh_calls (world (run_events (idle_gateway acme_store) (concurrent_401s two_requests)))
     = [RefreshPost ''/api/v1/acme/auth/refresh'' ''R1'',
        RefreshPost ''/api/v1/acme/auth/refresh'' ''R1'']
   \<and> settled (run_events (idle_gateway acme_store)
        (concurrent_401s two_requests @
           [RefreshSettled 1 (RefreshResponse (Body None (Some ''T2''))),
            RefreshSettled 2 RefreshRejects]))
     = [(1, ReturnAxios \<lparr> url = Some ''/products'', baseURL = Some ''/api/v1/acme'',
                           authorization = Some ''Bearer T2'' \<rparr>),
        (2, Reject (failed_401 acme_store ''/customers''))]"
  by (simp add: two_requests_def concurrent_401s_def idle_gateway_def acme_store_def
        failed_401_def setAuth_def initial_state_def on_rejected_def Let_def refresh_calls_def
        refresh_failed_def or_else_def setToken_def api_call_def api_request_def
        api_defaults_def startsWith_def)

text \<open>
  C1 (amended). There is no single-flight: every request that fails with 401 while a
  refresh token and a tenant slug are stored issues its own refresh call. For N requests
  whose 401 responses arrive before any refresh settles, exactly N refresh calls are
  issued, all to the tenant's refresh endpoint with the stored refresh token; the store
  is unchanged and all N requests are pending, none settled. Each request (the requests
  numbered distinctly) is then settled by the result of its own refresh call alone, in
  whatever order the calls settle, the others staying pending meanwhile and no further
  refresh call being issued:
  \<^item> its refresh call is rejected (or answers a null body): the request is rejected with
    its original error, the tenant session is cleared and the browser is sent to
    \<open>/<slug>/login\<close>;
  \<^item> its refresh call yields a token and the error carries the request: the token is
    stored, the request is replayed once with \<open>Authorization: Bearer <token>\<close> and the
    caller receives the replay's result;
  \<^item> its refresh call yields a token and the error carries no request: the token is
    stored, nothing is replayed and the original error is rejected;
  \<^item> its refresh call answers without a token: the original error is rejected and
    nothing else changes, the session is kept.
\<close>

theorem C1_one_refresh_per_request:
  assumes "truthy (refreshToken (store (world g)))"
    and "truthy (tenantSlug (store (world g)))"
    and "\<forall>q \<in> set reqs. status (snd q) = Some 401"
    and "slug = or_empty (tenantSlug (store (world g)))"
    and "g' = run_events g (concurrent_401s reqs)"
    and "G = run_events g' (settle_events rs)"
    and "G' = gateway_step (RefreshSettled i rr) G"
  shows "refresh_calls (world g') =
           refresh_calls (world g) @
           replicate (length reqs)
             (RefreshPost (''/api/v1/'' @ slug @ ''/auth/refresh'')
                (or_empty (refreshToken (store (world g)))))
    \<and> length (refresh_calls (world g')) = length (refresh_calls (world g)) + length reqs
    \<and> pending g' = pending g @ map (pending_of slug) reqs
    \<and> settled g' = settled g
    \<and> store (world g') = store (world g)
    \<and> (pending g = [] \<and> distinct (map fst reqs) \<and> distinct (map fst rs)
          \<and> (\<forall>r \<in> set rs. (fst r, fst (snd r)) \<in> set reqs)
        \<longrightarrow> settled G =
              settled g @ map (\<lambda>r. (fst r, claimed_outcome (fst (snd r)) (snd (snd r)))) rs
          \<and> pending G = map (pending_of slug) (filter (\<lambda>q. fst q \<notin> fst ` set rs) reqs)
          \<and> refresh_calls (world G) = refresh_calls (world g')
          \<and> ((i, e) \<in> set reqs \<and> i \<notin> fst ` set rs
              \<longrightarrow> pending G' =
                    map (pending_of slug) (filter (\<lambda>q. fst q \<notin> fst ` set ((i, e, rr) # rs)) reqs)
                \<and> (rr = RefreshRejects \<or> rr = RefreshResponse NullBody
                    \<longrightarrow> settled G' = settled G @ [(i, Reject e)]
                      \<and> store (world G') = logout (store (world G))
                      \<and> href (world G') = Some (''/'' @ slug @ ''/login'')
                      \<and> net_log (world G') = net_log (world G))
                \<and> (rr = RefreshResponse (Body ta a) \<and> truthy (or_else ta a)
                      \<and> config e = Some cfg
                    \<longrightarrow> settled G' =
                          settled G @
                          [(i, ReturnAxios
                                 (cfg\<lparr> authorization :=
                                         Some (''Bearer '' @ or_empty (or_else ta a)) \<rparr>))]
                      \<and> store (world G') = setToken (or_empty (or_else ta a)) (store (world G))
                      \<and> href (world G') = href (world G)
                      \<and> net_log (world G') =
                          net_log (world G) @
                          [AxiosRequest
                             (cfg\<lparr> authorization :=
                                     Some (''Bearer '' @ or_empty (or_else ta a)) \<rparr>)])
                \<and> (rr = RefreshResponse (Body ta a) \<and> truthy (or_else ta a)
                      \<and> config e = None
                    \<longrightarrow> settled G' = settled G @ [(i, Reject e)]
                      \<and> store (world G') = setToken (or_empty (or_else ta a)) (store (world G))
                      \<and> href (world G') = href (world G)
                      \<and> net_log (world G') = net_log (world G))
                \<and> (rr = RefreshResponse (Body ta a) \<and> \<not> truthy (or_else ta a)
                    \<longrightarrow> settled G' = settled G @ [(i, Reject e)]
                      \<and> world G' = world G)))"
proof -
  note run = concurrent_401s_run[OF assms(1) assms(2) assms(3)]
  have log: "net_log (world g') =
        net_log (world g) @
        replicate (length reqs)
          (RefreshPost (''/api/v1/'' @ slug @ ''/auth/refresh'')
             (or_empty (refreshToken (store (world g)))))"
    using run assms(4,5) by simp
  have calls: "refresh_calls (world g') =
           refresh_calls (world g) @
           replicate (length reqs)
             (RefreshPost (''/api/v1/'' @ slug @ ''/auth/refresh'')
                (or_empty (refreshToken (store (world g)))))"
    by (simp add: refresh_calls_def log)
  have len: "length (refresh_calls (world g')) = length (refresh_calls (world g)) + length reqs"
    by (simp add: calls)
  have pend: "pending g' = pending g @ map (pending_of slug) reqs"
    using run assms(4,5) by simp
  have sett: "settled g' = settled g" using run assms(5) by simp
  have st: "store (world g') = store (world g)" using run assms(5) by simp
  have rest: "settled G =
              settled g @ map (\<lambda>r. (fst r, claimed_outcome (fst (snd r)) (snd (snd r)))) rs
          \<and> pending G = map (pending_of slug) (filter (\<lambda>q. fst q \<notin> fst ` set rs) reqs)
          \<and> refresh_calls (world G) = refresh_calls (world g')
          \<and> ((i, e) \<in> set reqs \<and> i \<notin> fst ` set rs
              \<longrightarrow> pending G' =
                    map (pending_of slug) (filter (\<lambda>q. fst q \<notin> fst ` set ((i, e, rr) # rs)) reqs)
                \<and> settled G' =
                    settled G @
                    [(i, fst (on_refresh_settled \<lparr> p_error = e, p_tenantSlug = slug \<rparr> rr (world G)))]
                \<and> world G' = snd (on_refresh_settled \<lparr> p_error = e, p_tenantSlug = slug \<rparr> rr (world G)))"
    if h: "pending g = []" "distinct (map fst reqs)" "distinct (map fst rs)"
      "\<forall>r \<in> set rs. (fst r, fst (snd r)) \<in> set reqs"
  proof -
    have pend': "pending g' = map (pending_of slug) reqs" using pend h(1) by simp
    have look: "\<forall>r \<in> set rs. map_of (pending g') (fst r) =
        Some \<lparr> p_error = fst (snd r), p_tenantSlug = slug \<rparr>"
      using h(4) pending_lookup[OF h(2)] by (simp add: pend')
    note rs = run_settles[OF h(3) look, folded assms(6)]
    have pG: "pending G = map (pending_of slug) (filter (\<lambda>q. fst q \<notin> fst ` set rs) reqs)"
      using rs by (simp add: pend' pending_of_filter)
    have last: "pending G' =
                    map (pending_of slug) (filter (\<lambda>q. fst q \<notin> fst ` set ((i, e, rr) # rs)) reqs)
                \<and> settled G' =
                    settled G @
                    [(i, fst (on_refresh_settled \<lparr> p_error = e, p_tenantSlug = slug \<rparr> rr (world G)))]
                \<and> world G' = snd (on_refresh_settled \<lparr> p_error = e, p_tenantSlug = slug \<rparr> rr (world G))"
      if k: "(i, e) \<in> set reqs" "i \<notin> fst ` set rs"
    proof -
      have d: "distinct (map fst (filter (\<lambda>q. fst q \<notin> fst ` set rs) reqs))"
        using h(2) by (rule distinct_map_filter)
      have m: "(i, e) \<in> set (filter (\<lambda>q. fst q \<notin> fst ` set rs) reqs)"
        using k by simp
      have lk: "map_of (pending G) i = Some \<lparr> p_error = e, p_tenantSlug = slug \<rparr>"
        unfolding pG using pending_lookup[OF d m] .
      note stp = settle_step[OF lk, of rr, folded assms(7)]
      have flt: "filter (\<lambda>q. fst q \<noteq> i) (filter (\<lambda>q. fst q \<notin> fst ` set rs) reqs)
          = filter (\<lambda>q. fst q \<notin> fst ` set ((i, e, rr) # rs)) reqs"
        by (auto intro: filter_cong)
      have fi: "filter (\<lambda>q. fst q \<noteq> i) (map (pending_of slug) xs)
          = map (pending_of slug) (filter (\<lambda>q. fst q \<noteq> i) xs)" for xs
        by (induction xs) (simp_all add: pending_of_def)
      have pG': "pending G' =
          map (pending_of slug) (filter (\<lambda>q. fst q \<notin> fst ` set ((i, e, rr) # rs)) reqs)"
      proof -
        have "pending G' = filter (\<lambda>q. fst q \<noteq> i) (pending G)" by (simp add: stp)
        then show ?thesis by (simp only: pG fi flt)
      qed
      show ?thesis
        using pG' by (simp add: stp)
    qed
    show ?thesis using rs pG last by (simp add: sett)
  qed
  have cases_fail: "fst (on_refresh_settled p rr w) = Reject (p_error p)
      \<and> store (snd (on_refresh_settled p rr w)) = logout (store w)
      \<and> href (snd (on_refresh_settled p rr w)) = Some (''/'' @ p_tenantSlug p @ ''/login'')
      \<and> net_log (snd (on_refresh_settled p rr w)) = net_log w"
    if "rr = RefreshRejects \<or> rr = RefreshResponse NullBody" for p w
    using that by (auto simp add: refresh_failed_def)
  have cases_ok: "(truthy (or_else ta a) \<and> config (p_error p) = Some cfg \<longrightarrow>
        on_refresh_settled p (RefreshResponse (Body ta a)) w =
        (ReturnAxios (cfg\<lparr> authorization := Some (''Bearer '' @ or_empty (or_else ta a)) \<rparr>),
         w\<lparr> store := setToken (or_empty (or_else ta a)) (store w),
            net_log := net_log w @
              [AxiosRequest (cfg\<lparr> authorization := Some (''Bearer '' @ or_empty (or_else ta a)) \<rparr>)] \<rparr>))
      \<and> (truthy (or_else ta a) \<and> config (p_error p) = None \<longrightarrow>
        on_refresh_settled p (RefreshResponse (Body ta a)) w =
        (Reject (p_error p), w\<lparr> store := setToken (or_empty (or_else ta a)) (store w) \<rparr>))
      \<and> (\<not> truthy (or_else ta a) \<longrightarrow>
        on_refresh_settled p (RefreshResponse (Body ta a)) w = (Reject (p_error p), w))" for p w
    by (simp add: Let_def)
  show ?thesis
    using calls len pend sett st rest
      cases_fail[of "\<lparr> p_error = e, p_tenantSlug = slug \<rparr>" "world G"]
      cases_ok[of "\<lparr> p_error = e, p_tenantSlug = slug \<rparr>" "world G"]
    by (simp del: on_refresh_settled.simps gateway_step.simps) 
qed

theorem C1_one_refresh_per_request_witness:
  "refresh_calls (world (run_events (idle_gateway acme_store) (concurrent_401s two_requests)))
     = [RefreshPost ''/api/v1/acme/auth/refresh'' ''R1'',
        RefreshPost ''/api/v1/acme/auth/refresh'' ''R1'']
   \<and> map fst (pending (run_events (idle_gateway acme_store) (concurrent_401s two_requests))) = [1, 2]
   \<and> settled (run_events (idle_gateway acme_store) (concurrent_401s two_requests)) = []
   \<and> settled (run_events (run_events (idle_gateway acme_store) (concurrent_401s two_requests))
        (settle_events [(1, failed_401 acme_store ''/products'', ok_T2)]))
      = [(1, ReturnAxios ((api_call acme_store ''/products'')\<lparr> authorization := Some ''Bearer T2'' \<rparr>))]
   \<and> settled (gateway_step (RefreshSettled 2 RefreshRejects)
        (run_events (run_events (idle_gateway acme_store) (concurrent_401s two_requests))
          (settle_events [(1, failed_401 acme_store ''/products'', ok_T2)])))
      = [(1, ReturnAxios ((api_call acme_store ''/products'')\<lparr> authorization := Some ''Bearer T2'' \<rparr>)),
         (2, Reject (failed_401 acme_store ''/customers''))]
   \<and> pending (gateway_step (RefreshSettled 2 RefreshRejects)
        (run_events (run_events (idle_gateway acme_store) (concurrent_401s two_requests))
          (settle_events [(1, failed_401 acme_store ''/products'', ok_T2)]))) = []
   \<and> refreshToken (store (world (gateway_step (RefreshSettled 2 RefreshRejects)
        (run_events (run_events (idle_gateway acme_store) (concurrent_401s two_requests))
          (settle_events [(1, failed_401 acme_store ''/products'', ok_T2)]))))) = None
   \<and> href (world (gateway_step (RefreshSettled 2 RefreshRejects)
        (run_events (run_events (idle_gateway acme_store) (concurrent_401s two_requests))
          (settle_events [(1, failed_401 acme_store ''/products'', ok_T2)])))) = Some ''/acme/login''
   \<and> token (store (world (gateway_step (RefreshSettled 1 ok_T2)
        (run_events (idle_gateway acme_store) (concurrent_401s two_requests))))) = Some ''T2''
   \<and> net_log (world (gateway_step (RefreshSettled 1 ok_T2)
        (run_events (idle_gateway acme_store) (concurrent_401s two_requests))))
      = net_log (world (run_events (idle_gateway acme_store) (concurrent_401s two_requests))) @
        [AxiosRequest ((api_call acme_store ''/products'')\<lparr> authorization := Some ''Bearer T2'' \<rparr>)]"
proof -
  have s: "refreshToken (store (world (idle_gateway acme_store))) = Some ''R1''"
    "tenantSlug (store (world (idle_gateway acme_store))) = Some ''acme''"
    by (simp_all add: idle_gateway_def acme_store_def setAuth_def)
  have h1: "truthy (refreshToken (store (world (idle_gateway acme_store))))"
    and h2: "truthy (tenantSlug (store (world (idle_gateway acme_store))))"
    and h4: "''acme'' = or_empty (tenantSlug (store (world (idle_gateway acme_store))))"
    by (simp_all add: s)
  have h3: "\<forall>q \<in> set two_requests. status (snd q) = Some 401"
    by (simp add: two_requests_def failed_401_def)
  have h5: "pending (idle_gateway acme_store) = []" "distinct (map fst two_requests)"
    "(1, failed_401 acme_store ''/products'') \<in> set two_requests"
    "(2, failed_401 acme_store ''/customers'') \<in> set two_requests"
    by (simp_all add: idle_gateway_def two_requests_def)
  have e: "refresh_calls (world (idle_gateway acme_store)) = []"
    "settled (idle_gateway acme_store) = []" "length two_requests = Suc (Suc 0)"
    "map fst two_requests = [1, 2]"
    "filter (\<lambda>q. fst q \<noteq> Suc 0) two_requests = [(2, failed_401 acme_store ''/customers'')]"
    "filter (\<lambda>q. fst q \<noteq> 2 \<and> fst q \<noteq> Suc 0) two_requests = []"
    by (simp_all add: idle_gateway_def refresh_calls_def two_requests_def)
  have f: "fst \<circ> pending_of sl = fst" for sl
    by (rule ext) (simp add: pending_of_def)
  have c: "config (failed_401 acme_store ''/products'') = Some (api_call acme_store ''/products'')"
    by (simp add: failed_401_def)
  have o: "claimed_outcome (failed_401 acme_store ''/products'') ok_T2 =
      ReturnAxios ((api_call acme_store ''/products'')\<lparr> authorization := Some ''Bearer T2'' \<rparr>)"
    "or_else None (Some ''T2'') = Some ''T2''"
    by (simp_all add: ok_T2_def c or_else_def)
  note r = C1_one_refresh_per_request
    [OF h1 h2 h3 h4 refl refl refl,
     where rs = "[(1, failed_401 acme_store ''/products'', ok_T2)]" and i = 2
       and e = "failed_401 acme_store ''/customers''" and rr = RefreshRejects]
  note r2 = C1_one_refresh_per_request
    [OF h1 h2 h3 h4 refl refl refl,
     where rs = "[]" and i = 1
       and e = "failed_401 acme_store ''/products''" and rr = ok_T2
       and ta = None and a = "Some ''T2''" and cfg = "api_call acme_store ''/products''"]
  have c1: "refresh_calls (world (run_events (idle_gateway acme_store) (concurrent_401s two_requests)))
     = [RefreshPost ''/api/v1/acme/auth/refresh'' ''R1'',
        RefreshPost ''/api/v1/acme/auth/refresh'' ''R1'']"
    using r by (simp add: e s del: gateway_step.simps)
  have c2: "map fst (pending (run_events (idle_gateway acme_store) (concurrent_401s two_requests)))
     = [1, 2]"
    using r h5 by (simp add: e f del: gateway_step.simps)
  have c3: "settled (run_events (idle_gateway acme_store) (concurrent_401s two_requests)) = []"
    using r by (simp add: e del: gateway_step.simps)
  have c4: "settled (run_events (run_events (idle_gateway acme_store) (concurrent_401s two_requests))
        (settle_events [(1, failed_401 acme_store ''/products'', ok_T2)]))
      = [(1, ReturnAxios ((api_call acme_store ''/products'')\<lparr> authorization := Some ''Bearer T2'' \<rparr>))]"
    using r h5 by (simp add: e o del: gateway_step.simps)
  have c5: "settled (gateway_step (RefreshSettled 2 RefreshRejects)
        (run_events (run_events (idle_gateway acme_store) (concurrent_401s two_requests))
          (settle_events [(1, failed_401 acme_store ''/products'', ok_T2)])))
      = [(1, ReturnAxios ((api_call acme_store ''/products'')\<lparr> authorization := Some ''Bearer T2'' \<rparr>)),
         (2, Reject (failed_401 acme_store ''/customers''))]
   \<and> pending (gateway_step (RefreshSettled 2 RefreshRejects)
        (run_events (run_events (idle_gateway acme_store) (concurrent_401s two_requests))
          (settle_events [(1, failed_401 acme_store ''/products'', ok_T2)]))) = []
   \<and> refreshToken (store (world (gateway_step (RefreshSettled 2 RefreshRejects)
        (run_events (run_events (idle_gateway acme_store) (concurrent_401s two_requests))
          (settle_events [(1, failed_401 acme_store ''/products'', ok_T2)]))))) = None
   \<and> href (world (gateway_step (RefreshSettled 2 RefreshRejects)
        (run_events (run_events (idle_gateway acme_store) (concurrent_401s two_requests))
          (settle_events [(1, failed_401 acme_store ''/products'', ok_T2)])))) = Some ''/acme/login''"
    using r h5 by (simp add: e o logout_def del: gateway_step.simps)
  have c6: "token (store (world (gateway_step (RefreshSettled 1 ok_T2)
        (run_events (idle_gateway acme_store) (concurrent_401s two_requests))))) = Some ''T2''
   \<and> net_log (world (gateway_step (RefreshSettled 1 ok_T2)
        (run_events (idle_gateway acme_store) (concurrent_401s two_requests))))
      = net_log (world (run_events (idle_gateway acme_store) (concurrent_401s two_requests))) @
        [AxiosRequest ((api_call acme_store ''/products'')\<lparr> authorization := Some ''Bearer T2'' \<rparr>)]"
    using r2 h5 by (simp add: e o c ok_T2_def setToken_def settle_events_def del: gateway_step.simps)
  from c1 c2 c3 c4 c5 c6 show ?thesis by (simp del: gateway_step.simps)
qed

section \<open>Operator login: properties\<close>

text \<open>
  C6. Step-skip correctness. For a step-2 call that was made (a password is typed in) and
  succeeds: on \<open>{has_pin: false, has_code: true}\<close> the page goes from its step to step 4
  in the one handler, posting only the step-2 call, no step-3 call; when neither factor is
  configured the handler posts the step-4 call at once with the placeholder PIN
  \<open>000000\<close> and the placeholder code \<open>default\<close>, leaves the step as it is, and on the
  server's success establishes the operator session; otherwise (a PIN is configured) the
  page advances to step 3.
\<close>

theorem C6_step_skip:
  assumes "password (ui w) \<noteq> []"
  shows "step (ui (handleStep2 (Step2Ok False True) r4 w)) = 4
     \<and> posts (handleStep2 (Step2Ok False True) r4 w)
         = posts w @ [VerifyStep2 (username (ui w)) (password (ui w))]
     \<and> filter is_step3_post (posts (handleStep2 (Step2Ok False True) r4 w))
         = filter is_step3_post (posts w)
     \<and> posts (handleStep2 (Step2Ok False False) r4 w)
         = posts w @ [VerifyStep2 (username (ui w)) (password (ui w)),
                      VerifyStep4 (username (ui w)) (password (ui w)) ''000000'' ''default'']
     \<and> step (ui (handleStep2 (Step2Ok False False) r4 w)) = step (ui w)
     \<and> auth (handleStep2 (Step2Ok False False) (Step4Ok a access refresh) w)
         = setSuperAuth a access refresh (auth w)
     \<and> navigated (handleStep2 (Step2Ok False False) (Step4Ok a access refresh) w)
         = Some ''/s-panel/dashboard''
     \<and> step (ui (handleStep2 (Step2Ok True hc) r4 w)) = 3
     \<and> posts (handleStep2 (Step2Ok True hc) r4 w)
         = posts w @ [VerifyStep2 (username (ui w)) (password (ui w))]"
  using assms
  by (simp add: handleStep2_def doFinalLogin_def Let_def or_default_def split: Step4Response.split)

theorem C6_step_skip_witness:
  "step (ui login_at_step2) = 2
   \<and> step (ui (handleStep2 (Step2Ok False True) (Step4Fails \<lparr> e_status = None, e_detail = None \<rparr>)
        login_at_step2)) = 4
   \<and> posts (handleStep2 (Step2Ok False True) (Step4Fails \<lparr> e_status = None, e_detail = None \<rparr>)
        login_at_step2) = [VerifyStep1 ''admin'', VerifyStep2 ''admin'' ''secret'']
   \<and> posts (handleStep2 (Step2Ok False False) (Step4Ok ex_admin ''A'' ''R'') login_at_step2)
       = [VerifyStep1 ''admin'', VerifyStep2 ''admin'' ''secret'',
          VerifyStep4 ''admin'' ''secret'' ''000000'' ''default'']
   \<and> superToken (auth (handleStep2 (Step2Ok False False) (Step4Ok ex_admin ''A'' ''R'')
        login_at_step2)) = Some ''A''
   \<and> step (ui (handleStep2 (Step2Ok True True) (Step4Ok ex_admin ''A'' ''R'') login_at_step2)) = 3"
proof -
  have h: "password (ui login_at_step2) \<noteq> []"
    by (simp add: login_at_step2_def initial_login_def)
  have v: "step (ui login_at_step2) = 2" "posts login_at_step2 = [VerifyStep1 ''admin'']"
    "username (ui login_at_step2) = ''admin''" "password (ui login_at_step2) = ''secret''"
    by (simp_all add: login_at_step2_def initial_login_def)
  from C6_step_skip [OF h, where ?r4.0 = "Step4Fails \<lparr> e_status = None, e_detail = None \<rparr>"]
    C6_step_skip [OF h, where ?r4.0 = "Step4Ok ex_admin ''A'' ''R''" and a = ex_admin
      and access = "''A''" and refresh = "''R''" and hc = True]
  show ?thesis
    by (simp add: v setSuperAuth_def)
qed

section \<open>Access gate: properties\<close>

lemma checkTenantStatus_credentials:
  "credentials (snd (checkTenantStatus urlSlug cu p gs)) = credentials (snd gs)"
  by (simp add: checkTenantStatus_def credentials_def setUser_def Let_def
        split: Poll.split option.split)

lemma run_polls_credentials:
  "credentials (snd (run_polls urlSlug cu gs ps)) = credentials (snd gs)"
  by (induction ps arbitrary: gs) (simp_all add: checkTenantStatus_credentials)

lemma checkTenantStatus_gate:
  "truthy urlSlug \<Longrightarrow>
   fst (checkTenantStatus urlSlug cu (PollOk info) gs) =
     \<lparr> paymentBlock = (info_payment_required info = Some True),
       paymentMsg = or_empty (or_else (info_payment_message info) (Some [])) \<rparr>"
  by (simp add: checkTenantStatus_def Let_def split: option.split)

lemma checkTenantStatus_fails: "checkTenantStatus urlSlug cu PollFails gs = gs"
  by (simp add: checkTenantStatus_def)

lemma route_view:
  "hasHydrated s \<Longrightarrow> isAuthenticated s \<Longrightarrow> tenantSlug s = Some sl \<Longrightarrow>
   TenantProtectedRoute s (Some sl) g =
     (if paymentBlock g
      then Overlay (if paymentMsg g \<noteq> [] then paymentMsg g else default_payment_text)
      else Children)"
  by (simp add: TenantProtectedRoute_def)

lemma checkTenantStatus_store:
  assumes "truthy urlSlug"
  shows "snd (checkTenantStatus urlSlug cu (PollOk info) gs) =
     (case cu of
        None \<Rightarrow> snd gs
      | Some u \<Rightarrow>
          if payment_required u \<noteq> Some (info_payment_required info = Some True)
          then (snd gs)\<lparr> user := Some (u\<lparr> payment_required := Some (info_payment_required info = Some True),
                                          payment_message := Some (or_empty (or_else (info_payment_message info) (Some []))) \<rparr>) \<rparr>
          else snd gs)"
  using assms by (simp add: checkTenantStatus_def Let_def setUser_def split: option.split)

text \<open>
  C7 (as stated, refuted). The polls do write to the credential store: with the stored
  user's \<open>payment_required\<close> false, the poll that reports true replaces the stored user
  by a copy with \<open>payment_required\<close> true and the poll's message, so the store differs
  from the one before the poll.
\<close>

theorem C7_store_written_counterexample:
  "payment_required ex_user = Some False
   \<and> user hydrated_acme = Some ex_user
   \<and> snd (run_polls (Some ''acme'') (Some ex_user) (mounted_gate hydrated_acme, hydrated_acme)
        (take 1 toggle_polls))
       = hydrated_acme
   \<and> user (snd (run_polls (Some ''acme'') (Some ex_user) (mounted_gate hydrated_acme, hydrated_acme)
        (take 2 toggle_polls)))
       = Some (ex_user\<lparr> payment_required := Some True, payment_message := Some ''Pay'' \<rparr>)
   \<and> snd (run_polls (Some ''acme'') (Some ex_user) (mounted_gate hydrated_acme, hydrated_acme)
        (take 2 toggle_polls))
       \<noteq> hydrated_acme"
  by (simp add: toggle_polls_def info_of_def hydrated_acme_def acme_store_def setAuth_def
        initial_state_def setHasHydrated_def checkTenantStatus_def Let_def or_else_def
        setUser_def ex_user_def initial_gate_def mounted_gate_def init_from_user_def)

text \<open>
  C7 (amended). When the polled \<open>payment_required\<close> flag goes from false to true and back
  to false across three successive polls, the route is unblocked, then blocked (it
  renders the overlay with the poll's message, or the default text), then unblocked
  again on the next poll. No poll, in any sequence, alters the tokens, the tenant slug,
  the authentication flags or any operator-session field of the store. A poll does
  write the stored user: when the user the callback holds is the stored user and its
  \<open>payment_required\<close> differs from the polled flag, the poll sets the stored user's
  \<open>payment_required\<close> and \<open>payment_message\<close> to the polled values and leaves every other
  field of the user, and of the store, as it was; when the flag is the same, or no user
  is stored, the poll leaves the store unchanged. A failed poll leaves the gate state
  and the store unchanged.
\<close>

theorem C7_gate_non_destructive:
  assumes "truthy urlSlug"
    and "info_payment_required i1 \<noteq> Some True"
    and "info_payment_required i2 = Some True"
    and "info_payment_required i3 \<noteq> Some True"
    and "gs1 = checkTenantStatus urlSlug cu (PollOk i1) gs"
    and "gs2 = checkTenantStatus urlSlug cu (PollOk i2) gs1"
    and "gs3 = checkTenantStatus urlSlug cu (PollOk i3) gs2"
    and "required = (info_payment_required info = Some True)"
    and "msg = or_empty (or_else (info_payment_message info) (Some []))"
    and "polled = checkTenantStatus urlSlug (user s) (PollOk info) (g, s)"
  shows "\<not> paymentBlock (fst gs1) \<and> paymentBlock (fst gs2) \<and> \<not> paymentBlock (fst gs3)
    \<and> credentials (snd gs1) = credentials (snd gs)
    \<and> credentials (snd gs2) = credentials (snd gs)
    \<and> credentials (snd gs3) = credentials (snd gs)
    \<and> credentials (snd (run_polls urlSlug cu gs ps)) = credentials (snd gs)
    \<and> checkTenantStatus urlSlug cu PollFails x = x
    \<and> (hasHydrated (snd gs) \<and> isAuthenticated (snd gs) \<and> tenantSlug (snd gs) = urlSlug
        \<longrightarrow> TenantProtectedRoute (snd gs1) urlSlug (fst gs1) = Children
          \<and> TenantProtectedRoute (snd gs2) urlSlug (fst gs2) =
               Overlay (if truthy (info_payment_message i2)
                        then or_empty (info_payment_message i2) else default_payment_text)
          \<and> TenantProtectedRoute (snd gs3) urlSlug (fst gs3) = Children)
    \<and> fst polled = \<lparr> paymentBlock = required, paymentMsg = msg \<rparr>
    \<and> (user s = Some u \<and> payment_required u \<noteq> Some required
        \<longrightarrow> snd polled =
              s\<lparr> user := Some (u\<lparr> payment_required := Some required,
                                  payment_message := Some msg \<rparr>) \<rparr>
          \<and> user (snd polled) =
              Some \<lparr> user_id = user_id u, role_type = role_type u, permissions = permissions u,
                     tenant_name = tenant_name u, payment_required = Some required,
                     payment_message = Some msg \<rparr>)
    \<and> (user s = None \<or> (user s = Some u \<and> payment_required u = Some required)
        \<longrightarrow> snd polled = s)"
proof -
  have g1: "\<not> paymentBlock (fst gs1)" and g2: "paymentBlock (fst gs2)" and g3: "\<not> paymentBlock (fst gs3)"
    using assms by (simp_all add: checkTenantStatus_gate)
  have m2: "paymentMsg (fst gs2) = or_empty (or_else (info_payment_message i2) (Some []))"
    using assms by (simp add: checkTenantStatus_gate)
  have c1: "credentials (snd gs1) = credentials (snd gs)"
    using assms by (simp add: checkTenantStatus_credentials)
  have c2: "credentials (snd gs2) = credentials (snd gs)"
    using assms c1 by (simp add: checkTenantStatus_credentials)
  have c3: "credentials (snd gs3) = credentials (snd gs)"
    using assms c2 by (simp add: checkTenantStatus_credentials)
  have v: "TenantProtectedRoute (snd gs1) urlSlug (fst gs1) = Children
          \<and> TenantProtectedRoute (snd gs2) urlSlug (fst gs2) =
               Overlay (if truthy (info_payment_message i2)
                        then or_empty (info_payment_message i2) else default_payment_text)
          \<and> TenantProtectedRoute (snd gs3) urlSlug (fst gs3) = Children"
    if h: "hasHydrated (snd gs)" "isAuthenticated (snd gs)" "tenantSlug (snd gs) = urlSlug"
  proof -
    obtain sl where sl: "urlSlug = Some sl" using assms(1) by (cases urlSlug) simp_all
    have p: "hasHydrated x \<and> isAuthenticated x \<and> tenantSlug x = Some sl"
      if "credentials x = credentials (snd gs)" for x
      using that h sl by (simp add: credentials_def)
    have msg: "(if paymentMsg (fst gs2) \<noteq> [] then paymentMsg (fst gs2) else default_payment_text)
        = (if truthy (info_payment_message i2)
                        then or_empty (info_payment_message i2) else default_payment_text)"
      unfolding m2 by (cases "info_payment_message i2") (simp_all add: or_else_def)
    show ?thesis
      using p[OF c1] p[OF c2] p[OF c3] g1 g2 g3 msg sl by (simp add: route_view)
  qed
  have pg: "fst polled = \<lparr> paymentBlock = required, paymentMsg = msg \<rparr>"
    using assms(1,8,9,10) by (simp add: checkTenantStatus_gate)
  note ps = checkTenantStatus_store[OF assms(1), of "user s" info "(g, s)", folded assms(10)]
  have w: "snd polled =
              s\<lparr> user := Some (u\<lparr> payment_required := Some required,
                                  payment_message := Some msg \<rparr>) \<rparr>
          \<and> user (snd polled) =
              Some \<lparr> user_id = user_id u, role_type = role_type u, permissions = permissions u,
                     tenant_name = tenant_name u, payment_required = Some required,
                     payment_message = Some msg \<rparr>"
    if "user s = Some u" "payment_required u \<noteq> Some required"
    using that ps assms(8,9) by (cases u) simp
  have n: "snd polled = s"
    if "user s = None \<or> (user s = Some u \<and> payment_required u = Some required)"
    using that ps assms(8) by auto
  show ?thesis
    using g1 g2 g3 c1 c2 c3 v pg w n
    by (simp add: run_polls_credentials checkTenantStatus_fails)
qed

theorem C7_gate_non_destructive_witness:
  "truthy (Some ''acme'')
   \<and> mounted_gate hydrated_acme = \<lparr> paymentBlock = False, paymentMsg = [] \<rparr>
   \<and> paymentBlock (fst (run_polls (Some ''acme'') (Some ex_user)
        (mounted_gate hydrated_acme, hydrated_acme) (take 2 toggle_polls)))
   \<and> \<not> paymentBlock (fst (run_polls (Some ''acme'') (Some ex_user)
        (mounted_gate hydrated_acme, hydrated_acme) toggle_polls))
   \<and> credentials (snd (run_polls (Some ''acme'') (Some ex_user)
        (mounted_gate hydrated_acme, hydrated_acme) toggle_polls)) = credentials hydrated_acme
   \<and> TenantProtectedRoute
        (snd (run_polls (Some ''acme'') (Some ex_user) (mounted_gate hydrated_acme, hydrated_acme)
           (take 2 toggle_polls)))
        (Some ''acme'')
        (fst (run_polls (Some ''acme'') (Some ex_user) (mounted_gate hydrated_acme, hydrated_acme)
           (take 2 toggle_polls))) = Overlay ''Pay''
   \<and> TenantProtectedRoute
        (snd (run_polls (Some ''acme'') (Some ex_user) (mounted_gate hydrated_acme, hydrated_acme)
           toggle_polls))
        (Some ''acme'')
        (fst (run_polls (Some ''acme'') (Some ex_user) (mounted_gate hydrated_acme, hydrated_acme)
           toggle_polls))
       = Children
   \<and> snd (checkTenantStatus (Some ''acme'') (user hydrated_acme) (PollOk (info_of True ''Pay''))
        (mounted_gate hydrated_acme, hydrated_acme))
       = hydrated_acme\<lparr> user := Some (ex_user\<lparr> payment_required := Some True,
                                                payment_message := Some ''Pay'' \<rparr>) \<rparr>
   \<and> snd (checkTenantStatus (Some ''acme'') (user hydrated_acme) (PollOk (info_of False []))
        (mounted_gate hydrated_acme, hydrated_acme))
       = hydrated_acme"
proof -
  have h: "truthy (Some ''acme'')" by simp
  have i: "info_payment_required (info_of False []) \<noteq> Some True"
    "info_payment_required (info_of True ''Pay'') = Some True"
    "info_payment_message (info_of True ''Pay'') = Some ''Pay''"
    "info_payment_required (info_of False []) = Some False"
    by (simp_all add: info_of_def)
  have s: "hasHydrated hydrated_acme" "isAuthenticated hydrated_acme"
    "tenantSlug hydrated_acme = Some ''acme''" "user hydrated_acme = Some ex_user"
    "payment_required ex_user = Some False"
    by (simp_all add: hydrated_acme_def setHasHydrated_def acme_store_def setAuth_def ex_user_def)
  have m: "mounted_gate hydrated_acme = \<lparr> paymentBlock = False, paymentMsg = [] \<rparr>"
    by (simp add: mounted_gate_def init_from_user_def s ex_user_def or_else_def)
  have p: "toggle_polls = [PollOk (info_of False []), PollOk (info_of True ''Pay''),
      PollOk (info_of False [])]"
    by (simp add: toggle_polls_def)
  note a = C7_gate_non_destructive
    [OF h i(1) i(2) i(1) refl refl refl refl refl refl,
     where cu = "Some ex_user" and gs = "(mounted_gate hydrated_acme, hydrated_acme)"
       and ps = toggle_polls and info = "info_of True ''Pay''" and s = hydrated_acme
       and g = "mounted_gate hydrated_acme" and u = ex_user]
  note b = C7_gate_non_destructive
    [OF h i(1) i(2) i(1) refl refl refl refl refl refl,
     where cu = "Some ex_user" and gs = "(mounted_gate hydrated_acme, hydrated_acme)"
       and ps = toggle_polls and info = "info_of False []" and s = hydrated_acme
       and g = "mounted_gate hydrated_acme" and u = ex_user]
  have c1: "snd (checkTenantStatus (Some ''acme'') (user hydrated_acme) (PollOk (info_of True ''Pay''))
        (mounted_gate hydrated_acme, hydrated_acme))
       = hydrated_acme\<lparr> user := Some (ex_user\<lparr> payment_required := Some True,
                                                payment_message := Some ''Pay'' \<rparr>) \<rparr>"
    using a by (simp add: i s or_else_def)
  have c2: "snd (checkTenantStatus (Some ''acme'') (user hydrated_acme) (PollOk (info_of False []))
        (mounted_gate hydrated_acme, hydrated_acme)) = hydrated_acme"
    using b by (simp add: i s)
  from a c1 c2 m show ?thesis
    by (simp add: i s p)
qed

end
